theory Spec2Isabelle
  imports Complex_Main "HOL-Library.Sublist"
begin

section \<open>Python values and errors\<close>

text \<open>
  A Python \<open>str\<close> is modelled as a \<^typ>\<open>string\<close>: a list of code points below 256
  (one \<^typ>\<open>char\<close> per code point, \<open>len\<close> is \<^const>\<open>length\<close>). The character
  classes below are Python's on that range: \<open>str.lower\<close> maps \<open>A-Z\<close> and
  U+00C0..U+00DE (without U+00D7) to the code point 32 above, \<open>str.isdigit\<close> holds
  for \<open>0-9\<close> and for the superscripts U+00B2, U+00B3, U+00B9, and \<open>str.strip\<close>
  removes the twelve white-space code points of the range. Texts with larger code points
  are outside the model.

  A Python \<open>float\<close> that is the quotient of two integers is modelled by the exact
  rational quotient. Python rounds that quotient to the nearest double; rounding is
  monotone and leaves 0 and 1 fixed, so the bounds proved below carry over. The comparisons
  with \<open>0.2\<close> and \<open>0.3\<close> in \<open>random_domain\<close> agree with the exact ones for every
  host shorter than \<open>2^50\<close> characters.
\<close>

datatype error =
  ValueError | ZeroDivisionError | FileNotFoundError | JSONDecodeError | KeyError
  | TypeError | AttributeError | BadRequest | ModelError

datatype pynum = PyInt int | PyFloat rat

text \<open>
  The argument of \<open>compute_url_superset_features\<close>: a \<open>str\<close>, or any other object,
  of which the code only uses its truth value and its \<open>str()\<close> text.
\<close>

datatype pyobj = Str string | NonStr bool string

text \<open>
  What the model leaves open in the Python runtime: \<open>_check_bracketed_host\<close> of
  \<open>urllib.parse\<close> (the \<open>ipaddress\<close> validation of a bracketed host; True means it
  does not raise), \<open>sys.get_int_max_str_digits()\<close> (0 switches the limit off,
  CPython's default is 4300), and \<open>unicodedata.normalize('NFKC', s)\<close>, whose result is a
  list of code points of any size.
\<close>

record pyenv =
  bracketed_host_ok :: "string \<Rightarrow> bool"
  int_max_str_digits :: nat
  normalize_NFKC :: "string \<Rightarrow> nat list"

text \<open>
  The NFKC form of a text of code points below 256: fourteen of them have a compatibility
  mapping, every other one is its own normal form, and no two of them compose.
\<close>

definition nfkc_latin1_char :: "char \<Rightarrow> nat list" where
  "nfkc_latin1_char c =
     (let n = (of_char c :: nat)
      in if n = 0xA0 then [0x20]
         else if n = 0xA8 then [0x20, 0x308]
         else if n = 0xAA then [0x61]
         else if n = 0xAF then [0x20, 0x304]
         else if n = 0xB2 then [0x32]
         else if n = 0xB3 then [0x33]
         else if n = 0xB4 then [0x20, 0x301]
         else if n = 0xB5 then [0x3BC]
         else if n = 0xB8 then [0x20, 0x327]
         else if n = 0xB9 then [0x31]
         else if n = 0xBA then [0x6F]
         else if n = 0xBC then [0x31, 0x2044, 0x34]
         else if n = 0xBD then [0x31, 0x2044, 0x32]
         else if n = 0xBE then [0x33, 0x2044, 0x34]
         else [n])"

definition nfkc_latin1 :: "string \<Rightarrow> nat list" where
  "nfkc_latin1 s = concat (map nfkc_latin1_char s)"

definition env_default :: pyenv where
  "env_default =
     \<lparr> bracketed_host_ok = (\<lambda>h. True), int_max_str_digits = 4300,
       normalize_NFKC = nfkc_latin1 \<rparr>"

section \<open>String operations\<close>

definition py_lower_char :: "char \<Rightarrow> char" where
  "py_lower_char c =
     (let n = (of_char c :: nat)
      in if (65 \<le> n \<and> n \<le> 90) \<or> (192 \<le> n \<and> n \<le> 222 \<and> n \<noteq> 215)
         then char_of (n + 32) else c)"

definition py_lower :: "string \<Rightarrow> string" where
  "py_lower s = map py_lower_char s"

definition ascii_digit :: "char \<Rightarrow> bool" where
  "ascii_digit c = (let n = (of_char c :: nat) in 48 \<le> n \<and> n \<le> 57)"

definition isdigit_char :: "char \<Rightarrow> bool" where
  "isdigit_char c =
     (let n = (of_char c :: nat) in (48 \<le> n \<and> n \<le> 57) \<or> n = 178 \<or> n = 179 \<or> n = 185)"

definition py_isdigit :: "string \<Rightarrow> bool" where
  "py_isdigit s = (s \<noteq> [] \<and> list_all isdigit_char s)"

definition isspace_char :: "char \<Rightarrow> bool" where
  "isspace_char c =
     (let n = (of_char c :: nat)
      in (9 \<le> n \<and> n \<le> 13) \<or> (28 \<le> n \<and> n \<le> 32) \<or> n = 133 \<or> n = 160)"

definition py_strip :: "string \<Rightarrow> string" where
  "py_strip s = rev (dropWhile isspace_char (rev (dropWhile isspace_char s)))"

definition ascii_alpha :: "char \<Rightarrow> bool" where
  "ascii_alpha c =
     (let n = (of_char c :: nat) in (65 \<le> n \<and> n \<le> 90) \<or> (97 \<le> n \<and> n \<le> 122))"

definition ascii_lower_alpha :: "char \<Rightarrow> bool" where
  "ascii_lower_alpha c = (let n = (of_char c :: nat) in 97 \<le> n \<and> n \<le> 122)"

definition py_startswith :: "string \<Rightarrow> string \<Rightarrow> bool" where
  "py_startswith s p = (take (length p) s = p)"

text \<open>\<open>sub in s\<close>: the substring test.\<close>

fun py_in :: "string \<Rightarrow> string \<Rightarrow> bool" where
  "py_in sub [] = (sub = [])"
| "py_in sub (c # cs) = (py_startswith (c # cs) sub \<or> py_in sub cs)"

text \<open>\<open>s.count(sub)\<close>: the number of non-overlapping occurrences, scanning from the left.\<close>

function py_count :: "string \<Rightarrow> string \<Rightarrow> nat" where
  "py_count s sub =
     (if sub = [] then length s + 1
      else if length s < length sub then 0
      else if py_startswith s sub then 1 + py_count (drop (length sub) s) sub
      else py_count (tl s) sub)"
  by pat_completeness auto
termination
proof (relation "measure (\<lambda>(s, sub). length s)")
  fix s sub :: string
  assume "sub \<noteq> []" and "\<not> length s < length sub"
  then obtain c cs d ds where "sub = c # cs" and "s = d # ds"
    by (cases sub; cases s) auto
  then show "((drop (length sub) s, sub), (s, sub)) \<in> measure (\<lambda>(s, sub). length s)"
    and "((tl s, sub), (s, sub)) \<in> measure (\<lambda>(s, sub). length s)"
    by simp_all
qed simp

text \<open>\<open>s.find(c, start)\<close> and \<open>s.rfind(c)\<close> for a single character: None is Python's -1.\<close>

fun find_from :: "char \<Rightarrow> nat \<Rightarrow> string \<Rightarrow> nat option" where
  "find_from c i [] = None"
| "find_from c i (x # xs) = (if x = c then Some i else find_from c (Suc i) xs)"

definition py_find :: "string \<Rightarrow> char \<Rightarrow> nat \<Rightarrow> nat option" where
  "py_find s c start = find_from c start (drop start s)"

definition py_rfind :: "string \<Rightarrow> char \<Rightarrow> nat option" where
  "py_rfind s c =
     (case find_from c 0 (rev s) of None \<Rightarrow> None | Some j \<Rightarrow> Some (length s - 1 - j))"

text \<open>\<open>s.split(c)\<close> for a single character: never the empty list.\<close>

fun py_split :: "string \<Rightarrow> char \<Rightarrow> string list" where
  "py_split [] sep = [[]]"
| "py_split (c # cs) sep =
     (if c = sep then [] # py_split cs sep
      else (case py_split cs sep of [] \<Rightarrow> [[c]] | p # ps \<Rightarrow> (c # p) # ps))"

text \<open>\<open>s.partition(c)\<close> for a single character.\<close>

definition py_partition :: "string \<Rightarrow> char \<Rightarrow> string \<times> string \<times> string" where
  "py_partition s c =
     (if c \<in> set s then (takeWhile (\<lambda>x. x \<noteq> c) s, [c], drop 1 (dropWhile (\<lambda>x. x \<noteq> c) s))
      else (s, [], []))"

text \<open>
  \<open>int(s)\<close> on a string that satisfies \<open>s.isdigit()\<close>, its only use in the source: a
  superscript digit is rejected, and so is a string longer than the digit limit.
\<close>

definition digit_val :: "char \<Rightarrow> int" where
  "digit_val c = int (of_char c) - 48"

definition decimal :: "string \<Rightarrow> int" where
  "decimal s = foldl (\<lambda>n c. 10 * n + digit_val c) 0 s"

definition py_int :: "pyenv \<Rightarrow> string \<Rightarrow> error + int" where
  "py_int env s =
     (if s = [] \<or> \<not> list_all ascii_digit s then Inl ValueError
      else if 0 < int_max_str_digits env \<and> int_max_str_digits env < length s then Inl ValueError
      else Inr (decimal s))"

text \<open>\<open>a / b\<close> on integers.\<close>

definition py_truediv :: "int \<Rightarrow> int \<Rightarrow> error + rat" where
  "py_truediv a b = (if b = 0 then Inl ZeroDivisionError else Inr (of_int a / of_int b))"

section \<open>urllib.parse (CPython 3.11)\<close>

record parse_result =
  scheme :: string
  netloc :: string
  path :: string
  params :: string
  query :: string
  fragment :: string

definition scheme_chars :: string where
  "scheme_chars = ''abcdefghijklmnopqrstuvwxyzABCDEFGHIJKLMNOPQRSTUVWXYZ0123456789+-.''"

definition uses_params :: "string list" where
  "uses_params = ['''', ''ftp'', ''hdl'', ''prospero'', ''http'', ''imap'', ''https'', ''shttp'',
     ''rtsp'', ''rtsps'', ''rtspu'', ''sip'', ''sips'', ''mms'', ''sftp'', ''tel'']"

definition c0_control_or_space :: "char \<Rightarrow> bool" where
  "c0_control_or_space c = ((of_char c :: nat) \<le> 32)"

definition unsafe_url_byte :: "char \<Rightarrow> bool" where
  "unsafe_url_byte c = (c = CHR 0x09 \<or> c = CHR 0x0D \<or> c = CHR 0x0A)"

definition netloc_delim :: "char \<Rightarrow> bool" where
  "netloc_delim c = (c = CHR ''/'' \<or> c = CHR ''?'' \<or> c = CHR ''#'')"

definition splitnetloc :: "string \<Rightarrow> nat \<Rightarrow> string \<times> string" where
  "splitnetloc url start =
     (takeWhile (\<lambda>c. \<not> netloc_delim c) (drop start url),
      dropWhile (\<lambda>c. \<not> netloc_delim c) (drop start url))"

text \<open>
  \<open>_checknetloc(netloc)\<close>, True when it raises \<open>ValueError\<close>: the netloc is not empty
  and not ASCII, and its NFKC form, taken without the characters \<open>@:#?\<close>, differs from it
  and holds one of \<open>/?#@:\<close>.
\<close>

definition isascii :: "string \<Rightarrow> bool" where
  "isascii s = list_all (\<lambda>c. (of_char c :: nat) < 128) s"

definition checknetloc_raises :: "pyenv \<Rightarrow> string \<Rightarrow> bool" where
  "checknetloc_raises env nl =
     (if nl = [] \<or> isascii nl then False
      else (let n = filter (\<lambda>c. c \<notin> set ''@:#?'') nl;
                netloc2 = normalize_NFKC env n
            in if map of_char n = netloc2 then False
               else list_ex (\<lambda>c. of_char c \<in> set netloc2) ''/?#@:''))"

text \<open>
  \<open>urlsplit(url)\<close> with the default \<open>scheme=''\<close> and \<open>allow_fragments=True\<close>.
\<close>

definition urlsplit :: "pyenv \<Rightarrow> string \<Rightarrow> error + parse_result" where
  "urlsplit env url0 =
     (let url1 = dropWhile c0_control_or_space url0;
          url2 = filter (\<lambda>c. \<not> unsafe_url_byte c) url1;
          pre = takeWhile (\<lambda>c. c \<noteq> CHR '':'') url2;
          (sch, url3) =
            (if CHR '':'' \<in> set url2 \<and> pre \<noteq> [] \<and> ascii_alpha (hd url2)
                \<and> list_all (\<lambda>c. c \<in> set scheme_chars) pre
             then (py_lower pre, drop (length pre + 1) url2)
             else ([], url2));
          has_netloc = (take 2 url3 = ''//'');
          (nl, url4) = (if has_netloc then splitnetloc url3 2 else ([], url3));
          lb = (CHR ''['' \<in> set nl);
          rb = (CHR '']'' \<in> set nl)
      in if has_netloc \<and> ((lb \<and> \<not> rb) \<or> (rb \<and> \<not> lb)) then Inl ValueError
         else if has_netloc \<and> lb \<and> rb
                 \<and> \<not> bracketed_host_ok env
                       (fst (py_partition (snd (snd (py_partition nl (CHR ''['')))) (CHR '']'')))
         then Inl ValueError
         else
           (let (url5, frag) =
                  (if CHR ''#'' \<in> set url4
                   then (takeWhile (\<lambda>c. c \<noteq> CHR ''#'') url4,
                         drop 1 (dropWhile (\<lambda>c. c \<noteq> CHR ''#'') url4))
                   else (url4, []));
                (url6, qry) =
                  (if CHR ''?'' \<in> set url5
                   then (takeWhile (\<lambda>c. c \<noteq> CHR ''?'') url5,
                         drop 1 (dropWhile (\<lambda>c. c \<noteq> CHR ''?'') url5))
                   else (url5, []))
            in if checknetloc_raises env nl then Inl ValueError
               else Inr \<lparr> scheme = sch, netloc = nl, path = url6, params = [],
                         query = qry, fragment = frag \<rparr>))"

definition splitparams :: "string \<Rightarrow> string \<times> string" where
  "splitparams url =
     (case py_rfind url (CHR ''/'') of
        Some r \<Rightarrow>
          (case py_find url (CHR '';'') r of
             None \<Rightarrow> (url, [])
           | Some i \<Rightarrow> (take i url, drop (i + 1) url))
      | None \<Rightarrow>
          (case py_find url (CHR '';'') 0 of
             None \<Rightarrow> (butlast url, url)
           | Some i \<Rightarrow> (take i url, drop (i + 1) url)))"

definition urlparse :: "pyenv \<Rightarrow> string \<Rightarrow> error + parse_result" where
  "urlparse env url =
     (case urlsplit env url of
        Inl e \<Rightarrow> Inl e
      | Inr r \<Rightarrow>
          (if scheme r \<in> set uses_params \<and> CHR '';'' \<in> set (path r)
           then (let (u, p) = splitparams (path r) in Inr (r\<lparr> path := u, params := p \<rparr>))
           else Inr r))"

section \<open>feature_extract.py\<close>

text \<open>
  The names are those of the source, without the leading underscore of \<open>_SHORTENERS\<close>,
  \<open>_safe_len\<close> and \<open>_has_port\<close> (and of \<open>_splitnetloc\<close> and \<open>_splitparams\<close> above).
\<close>

definition SHORTENERS :: "string list" where
  "SHORTENERS = [''bit.ly'', ''tinyurl.com'', ''t.co'', ''goo.gl'', ''ow.ly'', ''buff.ly'',
     ''is.gd'', ''tiny.cc'', ''lc.chat'', ''rebrand.ly'', ''shorturl.at'', ''su.pr'', ''trib.al'']"

definition safe_len :: "string \<Rightarrow> int" where
  "safe_len s = int (length s)"

definition has_port :: "pyenv \<Rightarrow> string \<Rightarrow> error + int" where
  "has_port env nl =
     (if CHR '':'' \<in> set nl
      then (let parts = py_split nl (CHR '':'')
            in if py_isdigit (last parts) then py_int env (last parts) else Inr 0)
      else Inr 0)"

text \<open>
  \<open>re.search(p, s)\<close> tries the pattern at every position of \<open>s\<close>, the end included.
  \<open>$\<close> matches at the end of the text and before a final newline.
\<close>

fun re_search :: "(string \<Rightarrow> bool) \<Rightarrow> string \<Rightarrow> bool" where
  "re_search m [] = m []"
| "re_search m (c # cs) = (m (c # cs) \<or> re_search m cs)"

definition at_dollar :: "string \<Rightarrow> bool" where
  "at_dollar s = (s = [] \<or> s = [CHR 0x0A])"

text \<open>The pattern \<open>\.[a-z]{2,4}($|/)\<close> at the head of a text.\<close>

definition tld_path_here :: "string \<Rightarrow> bool" where
  "tld_path_here s =
     (case s of
        [] \<Rightarrow> False
      | d # r \<Rightarrow> d = CHR ''.'' \<and>
          list_ex (\<lambda>k. k \<le> length r \<and> list_all ascii_lower_alpha (take k r)
                        \<and> (at_dollar (drop k r) \<or> take 1 (drop k r) = ''/''))
                  [4, 3, 2])"

text \<open>The pattern \<open>\.[a-z]{2,4}\<close> at the head of a text.\<close>

definition tld_here :: "string \<Rightarrow> bool" where
  "tld_here s =
     (case s of
        d # a # b # r \<Rightarrow> d = CHR ''.'' \<and> ascii_lower_alpha a \<and> ascii_lower_alpha b
      | _ \<Rightarrow> False)"

text \<open>The pattern \<open>\.(php|asp|aspx|jsp|html|cfm|cgi)$\<close> at the head of a text.\<close>

definition path_extension_here :: "string \<Rightarrow> bool" where
  "path_extension_here s =
     list_ex (\<lambda>e. py_startswith s (CHR ''.'' # e) \<and> at_dollar (drop (length e + 1) s))
             [''php'', ''asp'', ''aspx'', ''jsp'', ''html'', ''cfm'', ''cgi'']"

definition suspicious_words :: "string list" where
  "suspicious_words = [''login'', ''signin'', ''secure'', ''verify'', ''update'', ''account'',
     ''confirm'', ''bank'', ''paypal'', ''ebay'']"

text \<open>\<open>sum(ch.isdigit() for ch in s)\<close> and \<open>sum(ch in "aeiou" for ch in s)\<close>.\<close>

definition count_digits :: "string \<Rightarrow> int" where
  "count_digits s = int (length (filter isdigit_char s))"

definition count_vowels :: "string \<Rightarrow> int" where
  "count_vowels s = int (length (filter (\<lambda>ch. ch \<in> set ''aeiou'') s))"

definition flag :: "bool \<Rightarrow> pynum" where
  "flag b = PyInt (if b then 1 else 0)"

text \<open>
  The dictionary \<open>features\<close> of \<open>compute_url_superset_features\<close>: its items in the
  order of the assignments (every key is assigned once), from the local values of the
  function: \<open>whole\<close>, \<open>host\<close>, \<open>path\<close>, the two digit ratios, the port and the
  \<open>random_domain\<close> flag.
\<close>

definition feature_items ::
  "string \<Rightarrow> string \<Rightarrow> string \<Rightarrow> rat \<Rightarrow> rat \<Rightarrow> int \<Rightarrow> int \<Rightarrow> (string \<times> pynum) list" where
  "feature_items whole host pth ratio_url ratio_host prt random_dom =
     [(''length_url'', PyInt (safe_len whole)),
      (''length_hostname'', PyInt (safe_len host)),
      (''nb_dots'', PyInt (int (py_count whole ''.''))),
      (''nb_hyphens'', PyInt (int (py_count whole ''-''))),
      (''nb_at'', PyInt (int (py_count whole ''@''))),
      (''nb_qm'', PyInt (int (py_count whole ''?''))),
      (''nb_and'', PyInt (int (py_count whole ''&''))),
      (''nb_or'', PyInt (int (py_count whole ''|''))),
      (''nb_eq'', PyInt (int (py_count whole ''=''))),
      (''nb_underscore'', PyInt (int (py_count whole ''_''))),
      (''nb_tilde'', PyInt (int (py_count whole ''~''))),
      (''nb_percent'', PyInt (int (py_count whole ''%''))),
      (''nb_slash'', PyInt (int (py_count whole ''/''))),
      (''nb_star'', PyInt (int (py_count whole ''*''))),
      (''nb_colon'', PyInt (int (py_count whole '':''))),
      (''nb_com'', PyInt (int (py_count (py_lower whole) ''.com''))),
      (''nb_www'', PyInt (int (py_count (py_lower whole) ''www''))),
      (''nb_dslash'', PyInt (int (py_count whole ''//'') - 1)),
      (''http_in_path'', flag (py_in ''http'' (py_lower pth))),
      (''https_token'', flag (py_in ''https'' host \<or> py_in ''https'' (py_lower whole))),
      (''ratio_digits_url'', PyFloat ratio_url),
      (''ratio_digits_host'', PyFloat ratio_host),
      (''punycode'', flag (py_startswith host ''xn--'' \<or> py_in ''xn--'' host)),
      (''port'', PyInt prt),
      (''tld_in_path'', flag (re_search tld_path_here (py_lower pth))),
      (''tld_in_subdomain'', flag (re_search tld_here (hd (py_split host (CHR '':''))))),
      (''nb_subdomains'', PyInt (int (py_count host ''.''))),
      (''prefix_suffix'', flag (py_in ''-'' host)),
      (''random_domain'', PyInt random_dom),
      (''shortening_service'', flag (hd (py_split host (CHR '':'')) \<in> set SHORTENERS)),
      (''path_extension'', flag (re_search path_extension_here (py_lower pth))),
      (''phish_hints'',
         PyInt (int (length (filter (\<lambda>w. py_in w (py_lower whole)) suspicious_words)))),
      (''abnormal_subdomain'', flag (3 < int (py_count host ''.''))),
      (''domain_in_brand'', PyInt 0),
      (''brand_in_subdomain'', PyInt 0),
      (''brand_in_path'', PyInt 0)]"

definition feature_dict ::
  "string \<Rightarrow> string \<Rightarrow> string \<Rightarrow> rat \<Rightarrow> rat \<Rightarrow> int \<Rightarrow> int \<Rightarrow> (string \<rightharpoonup> pynum)" where
  "feature_dict whole host pth ratio_url ratio_host prt random_dom =
     map_of (feature_items whole host pth ratio_url ratio_host prt random_dom)"

text \<open>\<open>url = str(url or "")\<close> for an argument that is not a \<open>str\<close>.\<close>

definition coerce_url :: "pyobj \<Rightarrow> string" where
  "coerce_url x = (case x of Str s \<Rightarrow> s | NonStr truthy txt \<Rightarrow> if truthy then txt else [])"

text \<open>The text that is handed to \<open>urlparse\<close>.\<close>

definition parse_input :: "string \<Rightarrow> string" where
  "parse_input url =
     (if py_startswith url ''http://'' \<or> py_startswith url ''https://'' then url
      else ''http://'' @ url)"

definition ratio_digits :: "string \<Rightarrow> error + rat" where
  "ratio_digits s = (if 0 < safe_len s then py_truediv (count_digits s) (safe_len s) else Inr 0)"

definition random_domain :: "string \<Rightarrow> error + int" where
  "random_domain host =
     (if 15 < safe_len host
      then (case py_truediv (count_vowels host) (safe_len host) of
              Inl e \<Rightarrow> Inl e
            | Inr v \<Rightarrow>
                if v < 2 / 10 then Inr 1
                else (case py_truediv (count_digits host) (safe_len host) of
                        Inl e \<Rightarrow> Inl e
                      | Inr d \<Rightarrow> Inr (if 3 / 10 < d then 1 else 0)))
      else Inr 0)"

definition compute_url_superset_features :: "pyenv \<Rightarrow> pyobj \<Rightarrow> error + (string \<rightharpoonup> pynum)" where
  "compute_url_superset_features env x =
     (let url = coerce_url x in
      case urlparse env (parse_input url) of
        Inl e \<Rightarrow> Inl e
      | Inr parsed \<Rightarrow>
          (let host = py_lower (netloc parsed); pth = path parsed; whole = url in
           case ratio_digits whole of
             Inl e \<Rightarrow> Inl e
           | Inr ratio_url \<Rightarrow>
               (case ratio_digits host of
                  Inl e \<Rightarrow> Inl e
                | Inr ratio_host \<Rightarrow>
                    (case has_port env host of
                       Inl e \<Rightarrow> Inl e
                     | Inr prt \<Rightarrow>
                         (case random_domain host of
                            Inl e \<Rightarrow> Inl e
                          | Inr random_dom \<Rightarrow>
                              Inr (feature_dict whole host pth ratio_url ratio_host
                                     prt random_dom))))))"

text \<open>
  The metadata file: a JSON object with an optional list \<open>features\<close> and an optional
  object \<open>medians\<close> from names to numbers, or some other JSON value. A file is missing,
  unreadable as its format, or has a content.
\<close>

datatype meta_json = MetaObject "string list option" "(string \<rightharpoonup> pynum) option" | MetaNonObject

datatype 'a file_state = Missing | Malformed | Content 'a

text \<open>
  \<open>pd.DataFrame([row], columns=cols)\<close>: a data frame of one row, its columns in the order
  of \<open>cols\<close>, each cell looked up in \<open>row\<close> by the column's name, a missing one being NaN.
\<close>

type_synonym dataframe = "(string \<times> pynum option) list"

definition DataFrame :: "(string \<rightharpoonup> pynum) \<Rightarrow> string list \<Rightarrow> dataframe" where
  "DataFrame row cols = map (\<lambda>c. (c, row c)) cols"

record classifier =
  model_predict :: "dataframe \<Rightarrow> error + int"
  model_predict_proba :: "(dataframe \<Rightarrow> error + rat list) option"

text \<open>The files of the process, and the paths it has opened so far, oldest first.\<close>

record world =
  meta_files :: "string \<Rightarrow> meta_json file_state"
  model_files :: "string \<Rightarrow> classifier file_state"
  opened :: "string list"

definition assemble_row ::
  "(string \<rightharpoonup> pynum) \<Rightarrow> (string \<rightharpoonup> pynum) \<Rightarrow> string list \<Rightarrow> (string \<rightharpoonup> pynum)" where
  "assemble_row superset medians model_features =
     fold (\<lambda>feat row.
             case superset feat of
               Some v \<Rightarrow> row(feat \<mapsto> v)
             | None \<Rightarrow> row(feat \<mapsto> (case medians feat of Some m \<Rightarrow> m | None \<Rightarrow> PyFloat 0)))
          model_features Map.empty"

definition extract_features_for_model ::
  "pyenv \<Rightarrow> world \<Rightarrow> pyobj \<Rightarrow> string \<Rightarrow> (error + dataframe) \<times> world" where
  "extract_features_for_model env w x meta_path =
     (let w' = w\<lparr> opened := opened w @ [meta_path] \<rparr> in
      case meta_files w meta_path of
        Content (MetaObject fs md) \<Rightarrow>
          (let model_features = (case fs of None \<Rightarrow> [] | Some l \<Rightarrow> l);
               medians = (case md of None \<Rightarrow> Map.empty | Some m \<Rightarrow> m)
           in case compute_url_superset_features env x of
                Inl e \<Rightarrow> (Inl e, w')
              | Inr superset \<Rightarrow>
                  (Inr (DataFrame (assemble_row superset medians model_features) model_features), w'))
      | _ \<Rightarrow> (Inl FileNotFoundError, w'))"

section \<open>app.py\<close>

definition MODEL_PATH :: string where
  "MODEL_PATH = ''robust_rf.pkl''"

definition META_PATH :: string where
  "META_PATH = ''robust_meta.json''"

record app =
  model :: classifier
  meta :: meta_json
  MODEL_FEATURES :: "string list"

text \<open>The module level of \<open>app.py\<close>: what runs once, when the process starts.\<close>

definition startup :: "world \<Rightarrow> (error + app) \<times> world" where
  "startup w =
     (let w1 = w\<lparr> opened := opened w @ [MODEL_PATH] \<rparr> in
      case model_files w MODEL_PATH of
        Missing \<Rightarrow> (Inl FileNotFoundError, w1)
      | Malformed \<Rightarrow> (Inl ModelError, w1)
      | Content m \<Rightarrow>
          (let w2 = w1\<lparr> opened := opened w1 @ [META_PATH] \<rparr> in
           case meta_files w META_PATH of
             Missing \<Rightarrow> (Inl FileNotFoundError, w2)
           | Malformed \<Rightarrow> (Inl JSONDecodeError, w2)
           | Content MetaNonObject \<Rightarrow> (Inl TypeError, w2)
           | Content (MetaObject None md) \<Rightarrow> (Inl KeyError, w2)
           | Content (MetaObject (Some fs) md) \<Rightarrow>
               (Inr \<lparr> model = m, meta = MetaObject (Some fs) md, MODEL_FEATURES = fs \<rparr>, w2)))"

text \<open>
  A POST request: a JSON body (unparseable, not an object, or an object of which only
  the value under \<open>url\<close> matters), or a form of which only the field \<open>url\<close> matters.
\<close>

datatype jvalue = JString string | JOther

datatype json_body = BadJson | NonObject | Object "jvalue option"

datatype request = JsonRequest json_body | FormRequest "string option"

record result =
  res_url :: string
  res_prediction :: int
  res_meaning :: string
  res_probabilities :: "rat list option"

text \<open>
  A response body: \<open>{"error": msg}\<close>, the body of the exception handler (its detail and
  trace are those of the error), the JSON of a result, or the page with the JSON text of a
  result in it.
\<close>

datatype body = ErrorJson string | ExceptionJson error | ResultJson result | ResultHtml result

definition is_json :: "request \<Rightarrow> bool" where
  "is_json req = (case req of JsonRequest b \<Rightarrow> True | FormRequest f \<Rightarrow> False)"

text \<open>Lines 36 to 40: the trimmed \<open>url\<close> of the request, or the exception raised on the way.\<close>

definition request_url :: "request \<Rightarrow> error + string" where
  "request_url req =
     (case req of
        JsonRequest BadJson \<Rightarrow> Inl BadRequest
      | JsonRequest NonObject \<Rightarrow> Inl AttributeError
      | JsonRequest (Object None) \<Rightarrow> Inr (py_strip [])
      | JsonRequest (Object (Some (JString s))) \<Rightarrow> Inr (py_strip s)
      | JsonRequest (Object (Some JOther)) \<Rightarrow> Inl AttributeError
      | FormRequest None \<Rightarrow> Inr (py_strip [])
      | FormRequest (Some s) \<Rightarrow> Inr (py_strip s))"

definition predict :: "pyenv \<Rightarrow> app \<Rightarrow> world \<Rightarrow> request \<Rightarrow> (body \<times> nat) \<times> world" where
  "predict env a w req =
     (case request_url req of
        Inl e \<Rightarrow> ((ExceptionJson e, 500), w)
      | Inr u \<Rightarrow>
          if u = [] then ((ErrorJson ''no url provided'', 400), w)
          else
            (case extract_features_for_model env w (Str u) META_PATH of
               (Inl e, w') \<Rightarrow> ((ExceptionJson e, 500), w')
             | (Inr X, w') \<Rightarrow>
                 (case model_predict (model a) X of
                    Inl e \<Rightarrow> ((ExceptionJson e, 500), w')
                  | Inr pred \<Rightarrow>
                      (case (case model_predict_proba (model a) of
                               None \<Rightarrow> Inr None
                             | Some pp \<Rightarrow> (case pp X of Inl e \<Rightarrow> Inl e | Inr ps \<Rightarrow> Inr (Some ps))) of
                         Inl e \<Rightarrow> ((ExceptionJson e, 500), w')
                       | Inr proba \<Rightarrow>
                           (let resp = \<lparr> res_url = u, res_prediction = pred,
                                         res_meaning = (if pred = 1 then ''phishing''
                                                        else ''legitimate''),
                                         res_probabilities = proba \<rparr>
                            in if is_json req then ((ResultJson resp, 200), w')
                               else ((ResultHtml resp, 200), w'))))))"

section \<open>Notions of the specification\<close>

text \<open>The value of one feature, None when the extractor raises.\<close>

definition feature :: "pyenv \<Rightarrow> pyobj \<Rightarrow> string \<Rightarrow> pynum option" where
  "feature env x k =
     (case compute_url_superset_features env x of Inl e \<Rightarrow> None | Inr f \<Rightarrow> f k)"

text \<open>The host of the source: the lower-cased network location of the parsed input.\<close>

definition parsed_host :: "pyenv \<Rightarrow> string \<Rightarrow> string option" where
  "parsed_host env url =
     (case urlparse env (parse_input url) of Inl e \<Rightarrow> None | Inr p \<Rightarrow> Some (py_lower (netloc p)))"


text \<open>
  The literal counts of a text: its length, the number of times each character occurs,
  and the occurrences of the three substrings.
\<close>

definition literal_counts :: "string \<Rightarrow> (string \<times> int) list" where
  "literal_counts s =
     [(''length_url'', int (length s)),
      (''nb_dots'', int (count_list s (CHR ''.''))),
      (''nb_hyphens'', int (count_list s (CHR ''-''))),
      (''nb_at'', int (count_list s (CHR ''@''))),
      (''nb_qm'', int (count_list s (CHR ''?''))),
      (''nb_and'', int (count_list s (CHR ''&''))),
      (''nb_or'', int (count_list s (CHR ''|''))),
      (''nb_eq'', int (count_list s (CHR ''=''))),
      (''nb_underscore'', int (count_list s (CHR ''_''))),
      (''nb_tilde'', int (count_list s (CHR ''~''))),
      (''nb_percent'', int (count_list s (CHR ''%''))),
      (''nb_slash'', int (count_list s (CHR ''/''))),
      (''nb_star'', int (count_list s (CHR ''*''))),
      (''nb_colon'', int (count_list s (CHR '':''))),
      (''nb_com'', int (py_count (py_lower s) ''.com'')),
      (''nb_www'', int (py_count (py_lower s) ''www'')),
      (''nb_dslash'', int (py_count s ''//'') - 1)]"

text \<open>
  The total number of occurrences of the suspicious keywords in a text, matched without
  regard to case.
\<close>

definition keyword_occurrences :: "string \<Rightarrow> nat" where
  "keyword_occurrences s = sum_list (map (\<lambda>w. py_count (py_lower s) w) suspicious_words)"


definition before_last_colon :: "string \<Rightarrow> string" where
  "before_last_colon s = rev (drop 1 (dropWhile (\<lambda>c. c \<noteq> CHR '':'') (rev s)))"

text \<open>A host without its \<open>:port\<close> suffix: the text before the last colon, if there is one.\<close>

definition strip_port_suffix :: "string \<Rightarrow> string" where
  "strip_port_suffix h = (if CHR '':'' \<in> set h then before_last_colon h else h)"




section \<open>Example objects\<close>

text \<open>
  A metadata document with one feature of the extractor and two that only the medians
  can give, a second document with another feature list, a classifier that answers 1 when
  the first cell of the row is a positive integer and has no \<open>predict_proba\<close>, and a
  world that holds a metadata document and that classifier at the paths of \<open>app.py\<close>.
\<close>

definition example_meta :: meta_json where
  "example_meta =
     MetaObject (Some [''nb_dots'', ''domain_age'', ''page_rank''])
                (Some [''domain_age'' \<mapsto> PyFloat 120])"

definition other_meta :: meta_json where
  "other_meta = MetaObject (Some [''nb_at'']) (Some Map.empty)"

definition example_classifier :: classifier where
  "example_classifier =
     \<lparr> model_predict =
         (\<lambda>X. case X of
                (c, Some (PyInt n)) # rest \<Rightarrow> Inr (if 0 < n then 1 else 0)
              | _ \<Rightarrow> Inr 0),
       model_predict_proba = None \<rparr>"

text \<open>A classifier with a third class: it answers the label 2 for every row.\<close>

definition three_class_classifier :: classifier where
  "three_class_classifier = \<lparr> model_predict = (\<lambda>X. Inr 2), model_predict_proba = None \<rparr>"

definition example_world :: "meta_json \<Rightarrow> world" where
  "example_world m =
     \<lparr> meta_files = (\<lambda>p. if p = META_PATH then Content m else Missing),
       model_files = (\<lambda>p. if p = MODEL_PATH then Content example_classifier else Missing),
       opened = [] \<rparr>"

definition example_app :: app where
  "example_app =
     \<lparr> model = example_classifier, meta = example_meta,
       MODEL_FEATURES = [''nb_dots'', ''domain_age'', ''page_rank''] \<rparr>"

section \<open>Lemmas about the model\<close>

subsection \<open>What a returned dictionary holds\<close>

declare py_count.simps [simp del]

lemma compute_Inr:
  assumes "compute_url_superset_features env x = Inr f"
  shows "\<exists>parsed ru rh prt rd.
           urlparse env (parse_input (coerce_url x)) = Inr parsed
         \<and> ratio_digits (coerce_url x) = Inr ru
         \<and> ratio_digits (py_lower (netloc parsed)) = Inr rh
         \<and> has_port env (py_lower (netloc parsed)) = Inr prt
         \<and> random_domain (py_lower (netloc parsed)) = Inr rd
         \<and> f = feature_dict (coerce_url x) (py_lower (netloc parsed)) (path parsed) ru rh prt rd"
  using assms
  by (auto simp: compute_url_superset_features_def Let_def split: sum.splits)

lemma compute_Str_Inr:
  assumes "compute_url_superset_features env (Str url) = Inr f"
  shows "\<exists>parsed ru rh prt rd.
           urlparse env (parse_input url) = Inr parsed
         \<and> ratio_digits url = Inr ru
         \<and> ratio_digits (py_lower (netloc parsed)) = Inr rh
         \<and> has_port env (py_lower (netloc parsed)) = Inr prt
         \<and> random_domain (py_lower (netloc parsed)) = Inr rd
         \<and> f = feature_dict url (py_lower (netloc parsed)) (path parsed) ru rh prt rd"
  using compute_Inr [OF assms] by (simp add: coerce_url_def)

lemma py_count_char: "py_count s [c] = count_list s c"
proof (induction s)
  case Nil
  show ?case by (simp add: py_count.simps)
next
  case (Cons x xs)
  then show ?case by (simp add: py_count.simps [of "x # xs"] py_startswith_def)
qed

lemma example_com_returns:
  "\<exists>g. compute_url_superset_features env (Str ''example.com'') = Inr g"
  by (simp add: compute_url_superset_features_def coerce_url_def parse_input_def
      py_startswith_def urlparse_def urlsplit_def Let_def splitnetloc_def
      c0_control_or_space_def unsafe_url_byte_def netloc_delim_def ascii_alpha_def
      scheme_chars_def uses_params_def py_lower_def py_lower_char_def ratio_digits_def
      safe_len_def py_truediv_def has_port_def random_domain_def checknetloc_raises_def
      isascii_def)

lemma feature_dict_literal_counts:
  "(k, v) \<in> set (literal_counts whole) \<Longrightarrow>
   feature_dict whole host pth ru rh prt rd k = Some (PyInt v)"
  unfolding literal_counts_def
  by (elim disjE | simp add: feature_dict_def feature_items_def safe_len_def py_count_char)+

lemma count_digits_le: "0 \<le> count_digits s \<and> count_digits s \<le> safe_len s"
  by (simp add: count_digits_def safe_len_def)

lemma ratio_digits_range:
  "\<exists>r. ratio_digits s = Inr r \<and> 0 \<le> r \<and> r \<le> 1 \<and> (length s = 0 \<longrightarrow> r = 0)"
proof (cases "s = []")
  case True
  then show ?thesis by (simp add: ratio_digits_def safe_len_def)
next
  case False
  then have pos: "0 < safe_len s" by (simp add: safe_len_def)
  have "0 \<le> (of_int (count_digits s) :: rat) / of_int (safe_len s)"
    using count_digits_le [of s] pos by simp
  moreover have "(of_int (count_digits s) :: rat) / of_int (safe_len s) \<le> 1"
    using count_digits_le [of s] pos by (simp add: divide_le_eq_1)
  ultimately show ?thesis using pos False by (simp add: ratio_digits_def py_truediv_def)
qed

subsection \<open>Substrings and splitting\<close>

lemma py_startswith_prefix: "py_startswith s p = prefix p s"
  unfolding py_startswith_def
proof
  assume "take (length p) s = p"
  then have "s = p @ drop (length p) s" by (metis append_take_drop_id)
  then show "prefix p s" by (rule prefixI)
next
  assume "prefix p s"
  then show "take (length p) s = p" by (auto simp: prefix_def)
qed

lemma py_in_sublist: "py_in sub s = sublist sub s"
  by (induction s) (auto simp: sublist_Cons_right py_startswith_prefix)

lemma distinct_suspicious_words: "distinct suspicious_words"
  by (simp add: suspicious_words_def)

lemma py_split_length: "length (py_split s c) = Suc (count_list s c)"
  by (induction s) (auto split: list.splits)

lemma py_split_nonempty: "py_split s c \<noteq> []"
  using py_split_length [of s c] by auto


lemma py_split_hd: "hd (py_split s c) = takeWhile (\<lambda>x. x \<noteq> c) s"
  by (induction s) (auto simp: py_split_nonempty split: list.splits)


subsection \<open>The port\<close>




lemma takeWhile_strip_port_suffix:
  assumes "count_list h (CHR '':'') \<le> 1"
  shows "takeWhile (\<lambda>c. c \<noteq> CHR '':'') h = strip_port_suffix h"
proof (cases "CHR '':'' \<in> set h")
  case False
  then show ?thesis by (auto simp: strip_port_suffix_def)
next
  case True
  then obtain a b where h: "h = a @ CHR '':'' # b" and a: "CHR '':'' \<notin> set a"
    by (meson split_list_first)
  from assms h a have b: "CHR '':'' \<notin> set b"
    by (auto simp: count_list_0_iff [symmetric])
  have "takeWhile (\<lambda>c. c \<noteq> CHR '':'') h = a"
    using h a by (simp add: takeWhile_append)
  moreover have "before_last_colon h = a"
    using h b by (simp add: before_last_colon_def dropWhile_append)
  ultimately show ?thesis using True by (simp add: strip_port_suffix_def)
qed

subsection \<open>The shortener flag\<close>

lemma shortening_service_single_colon:
  assumes "compute_url_superset_features env (Str url) = Inr f"
    and "parsed_host env url = Some host" and "count_list host (CHR '':'') \<le> 1"
  shows "f ''shortening_service''
           = Some (PyInt (if strip_port_suffix host \<in> set SHORTENERS then 1 else 0))"
proof -
  from compute_Str_Inr [OF assms(1)] obtain parsed ru rh prt rd where
    p: "urlparse env (parse_input url) = Inr parsed" and
    f: "f = feature_dict url (py_lower (netloc parsed)) (path parsed) ru rh prt rd"
    by auto
  from p assms(2) have h: "host = py_lower (netloc parsed)" by (simp add: parsed_host_def)
  have "f ''shortening_service''
          = Some (PyInt (if takeWhile (\<lambda>c. c \<noteq> CHR '':'') host \<in> set SHORTENERS then 1 else 0))"
    by (simp add: f h feature_dict_def feature_items_def flag_def py_split_hd)
  then show ?thesis using takeWhile_strip_port_suffix [OF assms(3)] by simp
qed

subsection \<open>The network location of the parsed input\<close>










subsection \<open>When the extractor returns\<close>





lemma empty_returns: "\<exists>f. compute_url_superset_features env (NonStr False t) = Inr f"
  by (simp add: compute_url_superset_features_def coerce_url_def parse_input_def
      py_startswith_def urlparse_def urlsplit_def Let_def splitnetloc_def
      c0_control_or_space_def unsafe_url_byte_def netloc_delim_def ascii_alpha_def
      scheme_chars_def uses_params_def py_lower_def py_lower_char_def ratio_digits_def
      safe_len_def py_truediv_def has_port_def random_domain_def checknetloc_raises_def
      isascii_def)





subsection \<open>The assembled record\<close>

lemma assemble_fold:
  "fold (\<lambda>feat row.
             case superset feat of
               Some v \<Rightarrow> row(feat \<mapsto> v)
             | None \<Rightarrow> row(feat \<mapsto> (case medians feat of Some m \<Rightarrow> m | None \<Rightarrow> PyFloat 0)))
        fs row0 k
   = (if k \<in> set fs
      then Some (case superset k of
                   Some v \<Rightarrow> v
                 | None \<Rightarrow> (case medians k of Some m \<Rightarrow> m | None \<Rightarrow> PyFloat 0))
      else row0 k)"
  by (induction fs arbitrary: row0) (auto split: option.splits)

lemma assemble_row_lookup:
  "k \<in> set fs \<Longrightarrow>
   assemble_row superset medians fs k
     = Some (case superset k of
               Some v \<Rightarrow> v
             | None \<Rightarrow> (case medians k of Some m \<Rightarrow> m | None \<Rightarrow> PyFloat 0))"
  by (simp add: assemble_row_def assemble_fold)

lemma DataFrame_assemble_row:
  "DataFrame (assemble_row superset medians fs) fs
     = map (\<lambda>k. (k, Some (case superset k of
                              Some v \<Rightarrow> v
                            | None \<Rightarrow> (case medians k of Some m \<Rightarrow> m | None \<Rightarrow> PyFloat 0)))) fs"
  by (simp add: DataFrame_def assemble_row_lookup)

lemma extract_Content:
  assumes "meta_files w meta_path = Content (MetaObject fs md)"
    and "compute_url_superset_features env x = Inr superset"
  shows "extract_features_for_model env w x meta_path
       = (Inr (map (\<lambda>k. (k, Some (case superset k of
                                      Some v \<Rightarrow> v
                                    | None \<Rightarrow> (case md of
                                                  None \<Rightarrow> PyFloat 0
                                                | Some meds \<Rightarrow> (case meds k of
                                                                  Some m \<Rightarrow> m
                                                                | None \<Rightarrow> PyFloat 0)))))
                  (case fs of None \<Rightarrow> [] | Some l \<Rightarrow> l)),
          w\<lparr> opened := opened w @ [meta_path] \<rparr>)"
proof -
  let ?fs = "case fs of None \<Rightarrow> [] | Some l \<Rightarrow> l"
  let ?md = "case md of None \<Rightarrow> Map.empty | Some m \<Rightarrow> m"
  have e: "extract_features_for_model env w x meta_path
             = (Inr (DataFrame (assemble_row superset ?md ?fs) ?fs),
                w\<lparr> opened := opened w @ [meta_path] \<rparr>)"
    using assms by (simp add: extract_features_for_model_def Let_def)
  have v: "(case ?md k of Some m \<Rightarrow> m | None \<Rightarrow> PyFloat 0)
           = (case md of None \<Rightarrow> PyFloat 0
              | Some meds \<Rightarrow> (case meds k of Some m \<Rightarrow> m | None \<Rightarrow> PyFloat 0))" for k
    by (simp split: option.splits)
  show ?thesis
    unfolding e DataFrame_assemble_row v by simp
qed

lemma extract_opened:
  "opened (snd (extract_features_for_model env w x meta_path)) = opened w @ [meta_path]"
  by (simp add: extract_features_for_model_def Let_def
      split: file_state.splits meta_json.splits sum.splits)

lemma extract_depends_on_file:
  "meta_files w meta_path = meta_files w2 meta_path \<Longrightarrow>
   fst (extract_features_for_model env w x meta_path)
     = fst (extract_features_for_model env w2 x meta_path)"
  by (simp add: extract_features_for_model_def Let_def
      split: file_state.splits meta_json.splits sum.splits)

lemma example_superset:
  "\<exists>superset. compute_url_superset_features env_default (Str ''a.b'') = Inr superset
     \<and> superset ''nb_dots'' = Some (PyInt 1) \<and> superset ''nb_at'' = Some (PyInt 0)
     \<and> superset ''domain_age'' = None \<and> superset ''page_rank'' = None"
proof -
  have "\<not> isl (compute_url_superset_features env_default (Str ''a.b''))"
    by code_simp
  then obtain f where f: "compute_url_superset_features env_default (Str ''a.b'') = Inr f"
    by (cases "compute_url_superset_features env_default (Str ''a.b'')") auto
  have "feature env_default (Str ''a.b'') ''nb_dots'' = Some (PyInt 1)"
    "feature env_default (Str ''a.b'') ''nb_at'' = Some (PyInt 0)"
    "feature env_default (Str ''a.b'') ''domain_age'' = None"
    "feature env_default (Str ''a.b'') ''page_rank'' = None"
    by code_simp+
  with f show ?thesis by (simp add: feature_def)
qed

lemma example_extract:
  "extract_features_for_model env_default (example_world example_meta) (Str ''a.b'') META_PATH
     = (Inr [(''nb_dots'', Some (PyInt 1)), (''domain_age'', Some (PyFloat 120)),
             (''page_rank'', Some (PyFloat 0))],
        (example_world example_meta)\<lparr> opened := [META_PATH] \<rparr>)"
proof -
  from example_superset obtain superset where
    s: "compute_url_superset_features env_default (Str ''a.b'') = Inr superset"
      "superset ''nb_dots'' = Some (PyInt 1)" "superset ''domain_age'' = None"
      "superset ''page_rank'' = None"
    by blast
  have m: "meta_files (example_world example_meta) META_PATH
        = Content (MetaObject (Some [''nb_dots'', ''domain_age'', ''page_rank''])
                (Some [''domain_age'' \<mapsto> PyFloat 120]))"
    by (simp add: example_world_def example_meta_def)
  show ?thesis
    unfolding extract_Content [OF m s(1)]
    by (simp add: s example_world_def)
qed

lemma other_extract:
  "extract_features_for_model env_default (example_world other_meta) (Str ''a.b'') META_PATH
     = (Inr [(''nb_at'', Some (PyInt 0))], (example_world other_meta)\<lparr> opened := [META_PATH] \<rparr>)"
proof -
  from example_superset obtain superset where
    s: "compute_url_superset_features env_default (Str ''a.b'') = Inr superset"
      "superset ''nb_at'' = Some (PyInt 0)"
    by blast
  have m: "meta_files (example_world other_meta) META_PATH
        = Content (MetaObject (Some [''nb_at'']) (Some Map.empty))"
    by (simp add: example_world_def other_meta_def)
  show ?thesis
    unfolding extract_Content [OF m s(1)]
    by (simp add: s example_world_def)
qed

subsection \<open>The request handler\<close>

lemma request_url_cases:
  "request_url (JsonRequest (Object None)) = Inr []"
  "request_url (FormRequest None) = Inr []"
  "request_url (JsonRequest (Object (Some (JString s)))) = Inr (py_strip s)"
  "request_url (FormRequest (Some s)) = Inr (py_strip s)"
  by (simp_all add: request_url_def py_strip_def)

lemma strip_blank: "py_strip ''  '' = []" "py_strip '' a.b '' = ''a.b''"
  by (simp_all add: py_strip_def isspace_char_def)

lemma example_predict_label:
  "model_predict (model example_app)
     [(''nb_dots'', Some (PyInt 1)), (''domain_age'', Some (PyFloat 120)),
      (''page_rank'', Some (PyFloat 0))] = Inr 1"
  "model_predict (model example_app) [(''nb_at'', Some (PyInt 0))] = Inr 0"
  "model_predict_proba (model example_app) = None"
  by (simp_all add: example_app_def example_classifier_def)

lemma predict_ignores_loaded_meta:
  "predict env (a\<lparr> meta := m, MODEL_FEATURES := fs \<rparr>) w req = predict env a w req"
proof -
  have m: "model (a\<lparr> meta := m, MODEL_FEATURES := fs \<rparr>) = model a" by simp
  show ?thesis unfolding predict_def m by (rule refl)
qed

lemma predict_opened:
  assumes "request_url req = Inr u" and "u \<noteq> []"
  shows "opened (snd (predict env a w req)) = opened w @ [META_PATH]"
proof -
  obtain res w' where e: "extract_features_for_model env w (Str u) META_PATH = (res, w')"
    by (cases "extract_features_for_model env w (Str u) META_PATH")
  then have o: "opened w' = opened w @ [META_PATH]"
    using extract_opened [of env w "Str u" META_PATH] by simp
  have "snd (predict env a w req) = w'"
    using assms e by (simp add: predict_def Let_def split: sum.splits option.splits)
  with o show ?thesis by simp
qed

lemma predict_depends_on_file:
  assumes "meta_files w META_PATH = meta_files w2 META_PATH"
  shows "fst (predict env a w req) = fst (predict env a w2 req)"
proof (cases "request_url req")
  case (Inl e)
  then show ?thesis by (simp add: predict_def)
next
  case (Inr u)
  obtain res w' where e1: "extract_features_for_model env w (Str u) META_PATH = (res, w')"
    by (cases "extract_features_for_model env w (Str u) META_PATH")
  obtain res2 w2' where e2: "extract_features_for_model env w2 (Str u) META_PATH = (res2, w2')"
    by (cases "extract_features_for_model env w2 (Str u) META_PATH")
  from extract_depends_on_file [OF assms, of env "Str u"] e1 e2 have "res2 = res" by simp
  with Inr e1 e2 show ?thesis
    by (simp add: predict_def Let_def split: sum.splits option.splits)
qed

lemma startup_opened:
  "fst (startup w) = Inr a \<Longrightarrow> opened (snd (startup w)) = opened w @ [MODEL_PATH, META_PATH]"
  by (auto simp: startup_def Let_def split: file_state.splits meta_json.splits option.splits)

section \<open>The claims\<close>

text \<open>
  C7. For every input string on which the extractor returns, \<open>nb_dslash\<close> is the number
  of occurrences of \<open>//\<close> in the original text (as \<open>str.count\<close> counts them) minus 1,
  whatever that number is; the input \<open>example.com\<close>, which holds no \<open>//\<close>, gets -1.
\<close>

theorem nb_dslash_unconditional:
  "(compute_url_superset_features env (Str url) = Inr f \<longrightarrow>
      f ''nb_dslash'' = Some (PyInt (int (py_count url ''//'') - 1)))
   \<and> (\<exists>g. compute_url_superset_features env (Str ''example.com'') = Inr g
          \<and> py_count ''example.com'' ''//'' = 0
          \<and> g ''nb_dslash'' = Some (PyInt (- 1)))"
proof (intro conjI impI)
  assume "compute_url_superset_features env (Str url) = Inr f"
  from compute_Inr [OF this] show "f ''nb_dslash'' = Some (PyInt (int (py_count url ''//'') - 1))"
    by (auto simp: feature_dict_def feature_items_def coerce_url_def)
next
  obtain g where g: "compute_url_superset_features env (Str ''example.com'') = Inr g"
    using example_com_returns by blast
  have c: "py_count ''example.com'' ''//'' = 0"
    by (simp add: py_count.simps py_startswith_def)
  from compute_Inr [OF g] have "g ''nb_dslash'' = Some (PyInt (- 1))"
    by (auto simp: feature_dict_def feature_items_def coerce_url_def c)
  with g c show "\<exists>g. compute_url_superset_features env (Str ''example.com'') = Inr g
          \<and> py_count ''example.com'' ''//'' = 0
          \<and> g ''nb_dslash'' = Some (PyInt (- 1))" by blast
qed

theorem nb_dslash_unconditional_witness:
  "\<not> isl (compute_url_superset_features env_default (Str ''a//b//c''))
   \<and> feature env_default (Str ''a//b//c'') ''nb_dslash'' = Some (PyInt 1)"
proof -
  have r: "\<not> isl (compute_url_superset_features env_default (Str ''a//b//c''))"
    by code_simp
  then obtain f where f: "compute_url_superset_features env_default (Str ''a//b//c'') = Inr f"
    by (cases "compute_url_superset_features env_default (Str ''a//b//c'')") auto
  have c: "py_count ''a//b//c'' ''//'' = 2"
    by (simp add: py_count.simps py_startswith_def)
  from nb_dslash_unconditional [of env_default "''a//b//c''" f] f c
  have "f ''nb_dslash'' = Some (PyInt 1)" by simp
  with r f show ?thesis by (simp add: feature_def)
qed

text \<open>
  C8. For every input string without an \<open>http://\<close> or \<open>https://\<close> prefix on which the
  extractor returns, the text that is parsed is \<open>http://\<close> followed by the input, while
  every literal count feature (\<open>length_url\<close>, the character counts, \<open>nb_com\<close>,
  \<open>nb_www\<close>, \<open>nb_dslash\<close>) is the count on the input itself: the length, the slashes
  and the colons of the prepended scheme are not counted.
\<close>

theorem counts_on_original_text:
  assumes "\<not> py_startswith url ''http://''" and "\<not> py_startswith url ''https://''"
    and "compute_url_superset_features env (Str url) = Inr f"
  shows "(\<exists>parsed. urlparse env (''http://'' @ url) = Inr parsed)
       \<and> (\<forall>(k, v) \<in> set (literal_counts url). f k = Some (PyInt v))
       \<and> f ''length_url'' \<noteq> Some (PyInt (int (length (''http://'' @ url))))
       \<and> f ''nb_slash'' \<noteq> Some (PyInt (int (count_list (''http://'' @ url) (CHR ''/''))))
       \<and> f ''nb_colon'' \<noteq> Some (PyInt (int (count_list (''http://'' @ url) (CHR '':''))))"
proof -
  from compute_Inr [OF assms(3)] obtain parsed ru rh prt rd where
    p: "urlparse env (parse_input url) = Inr parsed" and
    f: "f = feature_dict url (py_lower (netloc parsed)) (path parsed) ru rh prt rd"
    by (auto simp: coerce_url_def)
  from p assms(1,2) have "urlparse env (''http://'' @ url) = Inr parsed"
    by (simp add: parse_input_def)
  moreover have "\<forall>(k, v) \<in> set (literal_counts url). f k = Some (PyInt v)"
    using feature_dict_literal_counts f by blast
  moreover have "f ''length_url'' \<noteq> Some (PyInt (int (length (''http://'' @ url))))"
    by (simp add: f feature_dict_def feature_items_def safe_len_def)
  moreover have
    "f ''nb_slash'' \<noteq> Some (PyInt (int (count_list (''http://'' @ url) (CHR ''/''))))"
    by (simp add: f feature_dict_def feature_items_def py_count_char)
  moreover have
    "f ''nb_colon'' \<noteq> Some (PyInt (int (count_list (''http://'' @ url) (CHR '':''))))"
    by (simp add: f feature_dict_def feature_items_def py_count_char)
  ultimately show ?thesis by blast
qed

theorem counts_on_original_text_witness:
  "\<not> py_startswith ''a.b/c'' ''http://'' \<and> \<not> py_startswith ''a.b/c'' ''https://''
   \<and> feature env_default (Str ''a.b/c'') ''nb_slash'' = Some (PyInt 1)
   \<and> feature env_default (Str ''a.b/c'') ''length_url'' = Some (PyInt 5)
   \<and> feature env_default (Str ''a.b/c'') ''nb_dslash'' = Some (PyInt (- 1))"
proof -
  have a: "\<not> py_startswith ''a.b/c'' ''http://''" "\<not> py_startswith ''a.b/c'' ''https://''"
    by (simp_all add: py_startswith_def)
  have "\<not> isl (compute_url_superset_features env_default (Str ''a.b/c''))"
    by code_simp
  then obtain f where f: "compute_url_superset_features env_default (Str ''a.b/c'') = Inr f"
    by (cases "compute_url_superset_features env_default (Str ''a.b/c'')") auto
  have c: "py_count ''a.b/c'' ''//'' = 0"
    by (simp add: py_count.simps py_startswith_def)
  from counts_on_original_text [OF a f]
  have "\<forall>(k, v) \<in> set (literal_counts ''a.b/c''). f k = Some (PyInt v)" by blast
  then have "f ''nb_slash'' = Some (PyInt 1)" "f ''length_url'' = Some (PyInt 5)"
    "f ''nb_dslash'' = Some (PyInt (- 1))"
    by (simp_all add: literal_counts_def c)
  with a f show ?thesis by (simp add: feature_def)
qed

text \<open>
  C6. For every input string on which the extractor returns, \<open>ratio_digits_url\<close> and
  \<open>ratio_digits_host\<close> are floats between 0 and 1; the first is 0.0 when the input has
  length 0 and the second is 0.0 when the parsed host has length 0.
\<close>

theorem ratio_digits_in_unit_interval:
  assumes "compute_url_superset_features env (Str url) = Inr f"
  shows "\<exists>ru rh host.
           parsed_host env url = Some host
         \<and> f ''ratio_digits_url'' = Some (PyFloat ru)
         \<and> f ''ratio_digits_host'' = Some (PyFloat rh)
         \<and> 0 \<le> ru \<and> ru \<le> 1 \<and> 0 \<le> rh \<and> rh \<le> 1
         \<and> (length url = 0 \<longrightarrow> ru = 0)
         \<and> (length host = 0 \<longrightarrow> rh = 0)"
proof -
  from compute_Inr [OF assms] obtain parsed ru rh prt rd where
    p: "urlparse env (parse_input url) = Inr parsed" and
    ru: "ratio_digits url = Inr ru" and
    rh: "ratio_digits (py_lower (netloc parsed)) = Inr rh" and
    f: "f = feature_dict url (py_lower (netloc parsed)) (path parsed) ru rh prt rd"
    by (auto simp: coerce_url_def)
  have "parsed_host env url = Some (py_lower (netloc parsed))"
    by (simp add: parsed_host_def p)
  moreover have "f ''ratio_digits_url'' = Some (PyFloat ru)"
    by (simp add: f feature_dict_def feature_items_def)
  moreover have "f ''ratio_digits_host'' = Some (PyFloat rh)"
    by (simp add: f feature_dict_def feature_items_def)
  moreover have "0 \<le> ru \<and> ru \<le> 1 \<and> (length url = 0 \<longrightarrow> ru = 0)"
    using ratio_digits_range [of url] ru by auto
  moreover have "0 \<le> rh \<and> rh \<le> 1 \<and> (length (py_lower (netloc parsed)) = 0 \<longrightarrow> rh = 0)"
    using ratio_digits_range [of "py_lower (netloc parsed)"] rh by auto
  ultimately show ?thesis by blast
qed

theorem ratio_digits_in_unit_interval_witness:
  "parsed_host env_default ''a1.b2/34'' = Some ''a1.b2''
   \<and> feature env_default (Str ''a1.b2/34'') ''ratio_digits_url'' = Some (PyFloat (1 / 2))
   \<and> feature env_default (Str ''a1.b2/34'') ''ratio_digits_host'' = Some (PyFloat (2 / 5))
   \<and> (\<exists>ru rh. feature env_default (Str '''') ''ratio_digits_url'' = Some (PyFloat ru)
         \<and> feature env_default (Str '''') ''ratio_digits_host'' = Some (PyFloat rh)
         \<and> ru = 0 \<and> rh = 0)"
proof -
  have "\<not> isl (compute_url_superset_features env_default (Str ''''))"
    by code_simp
  then obtain g where g: "compute_url_superset_features env_default (Str '''') = Inr g"
    by (cases "compute_url_superset_features env_default (Str '''')") auto
  have h: "parsed_host env_default '''' = Some ''''"
    by code_simp
  from ratio_digits_in_unit_interval [OF g] h
  have "\<exists>ru rh. g ''ratio_digits_url'' = Some (PyFloat ru)
         \<and> g ''ratio_digits_host'' = Some (PyFloat rh) \<and> ru = 0 \<and> rh = 0"
    by auto
  then have "\<exists>ru rh. feature env_default (Str '''') ''ratio_digits_url'' = Some (PyFloat ru)
         \<and> feature env_default (Str '''') ''ratio_digits_host'' = Some (PyFloat rh)
         \<and> ru = 0 \<and> rh = 0"
    by (simp add: feature_def g)
  moreover have "parsed_host env_default ''a1.b2/34'' = Some ''a1.b2''"
    by code_simp
  moreover have
    "feature env_default (Str ''a1.b2/34'') ''ratio_digits_url'' = Some (PyFloat (1 / 2))"
    by code_simp
  moreover have
    "feature env_default (Str ''a1.b2/34'') ''ratio_digits_host'' = Some (PyFloat (2 / 5))"
    by code_simp
  ultimately show ?thesis by blast
qed

text \<open>
  C4 (as amended). For every URL string on which the extractor returns, \<open>phish_hints\<close>
  is the number of suspicious keywords, out of the ten, that occur at least once in the
  lower-cased URL text: each keyword counts once however often it occurs, so the value is
  at most 10. The claim as stated, the total number of occurrences, fails on a URL that
  holds \<open>login\<close> twice.
\<close>

theorem phish_hints_counts_keywords_present:
  assumes "compute_url_superset_features env (Str url) = Inr f"
  shows "f ''phish_hints''
           = Some (PyInt (int (card {w \<in> set suspicious_words. sublist w (py_lower url)})))
       \<and> card {w \<in> set suspicious_words. sublist w (py_lower url)} \<le> 10"
proof -
  from compute_Str_Inr [OF assms] obtain parsed ru rh prt rd where
    p: "urlparse env (parse_input url) = Inr parsed" and
    f: "f = feature_dict url (py_lower (netloc parsed)) (path parsed) ru rh prt rd"
    by auto
  have "{w. sublist w (py_lower url)} \<inter> set suspicious_words
          = {w \<in> set suspicious_words. sublist w (py_lower url)}" by blast
  then have n: "length (filter (\<lambda>w. py_in w (py_lower url)) suspicious_words)
          = card {w \<in> set suspicious_words. sublist w (py_lower url)}"
    using distinct_length_filter [OF distinct_suspicious_words, of "\<lambda>w. sublist w (py_lower url)"]
    by (simp add: py_in_sublist)
  have "length (filter (\<lambda>w. py_in w (py_lower url)) suspicious_words) \<le> length suspicious_words"
    by (rule length_filter_le)
  then have "card {w \<in> set suspicious_words. sublist w (py_lower url)} \<le> 10"
    unfolding n by (simp add: suspicious_words_def)
  moreover have "f ''phish_hints''
      = Some (PyInt (int (length (filter (\<lambda>w. py_in w (py_lower url)) suspicious_words))))"
    by (simp add: f feature_dict_def feature_items_def)
  ultimately show ?thesis by (simp add: n)
qed

theorem phish_hints_counts_keywords_present_witness:
  "feature env_default (Str ''http://a.com/LOGIN/login/secure'') ''phish_hints'' = Some (PyInt 2)
   \<and> card {w \<in> set suspicious_words. sublist w (py_lower ''http://a.com/LOGIN/login/secure'')} = 2"
proof -
  have "\<not> isl (compute_url_superset_features env_default (Str ''http://a.com/LOGIN/login/secure''))"
    by code_simp
  then obtain f where
    f: "compute_url_superset_features env_default (Str ''http://a.com/LOGIN/login/secure'') = Inr f"
    by (cases "compute_url_superset_features env_default (Str ''http://a.com/LOGIN/login/secure'')")
      auto
  have v: "feature env_default (Str ''http://a.com/LOGIN/login/secure'') ''phish_hints''
             = Some (PyInt 2)"
    by code_simp
  with phish_hints_counts_keywords_present [OF f] f show ?thesis
    by (simp add: feature_def)
qed

theorem phish_hints_counterexample:
  "feature env_default (Str ''login.example.com/login'') ''phish_hints'' = Some (PyInt 1)
   \<and> keyword_occurrences ''login.example.com/login'' = 2
   \<and> feature env_default (Str ''login.example.com/login'') ''phish_hints''
        \<noteq> Some (PyInt (int (keyword_occurrences ''login.example.com/login'')))"
proof -
  have a: "feature env_default (Str ''login.example.com/login'') ''phish_hints'' = Some (PyInt 1)"
    by code_simp
  have b: "keyword_occurrences ''login.example.com/login'' = 2"
    by code_simp
  show ?thesis by (simp add: a b)
qed



text \<open>
  C9. The claim: \<open>shortening_service\<close> is 1 if and only if the parsed host, without its
  \<open>:port\<close> suffix, is an entry of the fixed shortener set. The code cuts the host at its
  first colon instead, which is the same on a host with at most one colon and differs on
  the input \<open>http://bit.ly:pw@evil.com:80/\<close>: the host without its port suffix is
  \<open>bit.ly:pw@evil.com\<close>, no entry of the set, the port feature of the same input is 80, the
  text after the last colon, and \<open>shortening_service\<close> is 1.
\<close>

theorem shortening_service_second_colon:
  "parsed_host env_default ''http://bit.ly:pw@evil.com:80/'' = Some ''bit.ly:pw@evil.com:80''
   \<and> strip_port_suffix ''bit.ly:pw@evil.com:80'' = ''bit.ly:pw@evil.com''
   \<and> ''bit.ly:pw@evil.com'' \<notin> set SHORTENERS
   \<and> feature env_default (Str ''http://bit.ly:pw@evil.com:80/'') ''port'' = Some (PyInt 80)
   \<and> feature env_default (Str ''http://bit.ly:pw@evil.com:80/'') ''shortening_service''
        = Some (PyInt 1)"
proof -
  have "parsed_host env_default ''http://bit.ly:pw@evil.com:80/'' = Some ''bit.ly:pw@evil.com:80''"
    by code_simp
  moreover have "strip_port_suffix ''bit.ly:pw@evil.com:80'' = ''bit.ly:pw@evil.com''"
    by (simp add: strip_port_suffix_def before_last_colon_def)
  moreover have "''bit.ly:pw@evil.com'' \<notin> set SHORTENERS"
    by (simp add: SHORTENERS_def)
  moreover have "feature env_default (Str ''http://bit.ly:pw@evil.com:80/'') ''port''
        = Some (PyInt 80)"
    by code_simp
  moreover have "feature env_default (Str ''http://bit.ly:pw@evil.com:80/'') ''shortening_service''
        = Some (PyInt 1)"
    by code_simp
  ultimately show ?thesis by blast
qed




text \<open>
  C1. For every URL string on which the extractor returns and every metadata document that
  is an object, the record that \<open>extract_features_for_model\<close> assembles has exactly the
  names of the metadata's \<open>features\<close>, in that order (none when the field is absent); a
  name that the extractor's dictionary holds has the extracted value, and any other name
  has the metadata's median for it, or 0.0 when no median is recorded.
\<close>

theorem model_record_follows_metadata:
  assumes "meta_files w meta_path = Content (MetaObject fs md)"
    and "compute_url_superset_features env (Str url) = Inr superset"
  shows "\<exists>df. fst (extract_features_for_model env w (Str url) meta_path) = Inr df
       \<and> map fst df = (case fs of None \<Rightarrow> [] | Some l \<Rightarrow> l)
       \<and> df = map (\<lambda>k. (k, Some (case superset k of
                                      Some v \<Rightarrow> v
                                    | None \<Rightarrow> (case md of
                                                  None \<Rightarrow> PyFloat 0
                                                | Some meds \<Rightarrow> (case meds k of
                                                                  Some m \<Rightarrow> m
                                                                | None \<Rightarrow> PyFloat 0)))))
                  (case fs of None \<Rightarrow> [] | Some l \<Rightarrow> l)"
  unfolding extract_Content [OF assms] by (simp add: comp_def)

theorem model_record_follows_metadata_witness:
  "meta_files (example_world example_meta) META_PATH
     = Content (MetaObject (Some [''nb_dots'', ''domain_age'', ''page_rank''])
                           (Some [''domain_age'' \<mapsto> PyFloat 120]))
   \<and> fst (extract_features_for_model env_default (example_world example_meta) (Str ''a.b'')
            META_PATH)
       = Inr [(''nb_dots'', Some (PyInt 1)), (''domain_age'', Some (PyFloat 120)),
              (''page_rank'', Some (PyFloat 0))]"
proof -
  from example_superset obtain superset where
    s: "compute_url_superset_features env_default (Str ''a.b'') = Inr superset"
      "superset ''nb_dots'' = Some (PyInt 1)" "superset ''domain_age'' = None"
      "superset ''page_rank'' = None"
    by blast
  have m: "meta_files (example_world example_meta) META_PATH
        = Content (MetaObject (Some [''nb_dots'', ''domain_age'', ''page_rank''])
                (Some [''domain_age'' \<mapsto> PyFloat 120]))"
    by (simp add: example_world_def example_meta_def)
  from model_record_follows_metadata [OF m s(1)] s(2-4) m show ?thesis
    by auto
qed

text \<open>
  C3 (as amended). For every POST request to \<open>/predict\<close> that is a form or a JSON object
  whose \<open>url\<close> is absent or a string: when the trimmed \<open>url\<close> is empty or absent, the
  response is status 400 with the body \<open>{"error": "no url provided"}\<close>; when it is not
  empty, the record for it is assembled and the classifier answers a label (and its
  probabilities, if it has them), the response is status 200 and carries the result, as JSON
  for a JSON request and as the JSON text in the page for a form: its \<open>prediction\<close> is the
  integer label of the classifier, whatever it is, and its \<open>meaning\<close> is \<open>phishing\<close>
  exactly when the prediction is 1 and \<open>legitimate\<close> otherwise. The claim as stated fails
  on a classifier with a label other than 0 and 1, which the handler passes on, and on a
  JSON body that is no object or whose \<open>url\<close> is no string, which is answered with status
  500.
\<close>

theorem predict_responses:
  "((req = JsonRequest (Object None) \<or> req = FormRequest None
     \<or> ((req = JsonRequest (Object (Some (JString s))) \<or> req = FormRequest (Some s))
         \<and> py_strip s = []))
    \<longrightarrow> predict env a w req = ((ErrorJson ''no url provided'', 400), w))
   \<and> ((req = JsonRequest (Object (Some (JString s))) \<or> req = FormRequest (Some s))
       \<and> py_strip s \<noteq> []
       \<and> extract_features_for_model env w (Str (py_strip s)) META_PATH = (Inr X, w')
       \<and> model_predict (model a) X = Inr p
       \<and> (\<forall>pp. model_predict_proba (model a) = Some pp \<longrightarrow> (\<exists>ps. pp X = Inr ps))
      \<longrightarrow> (\<exists>r. fst (predict env a w req)
                   = ((if is_json req then ResultJson r else ResultHtml r), 200)
             \<and> res_url r = py_strip s \<and> res_prediction r = p
             \<and> (res_meaning r = ''phishing'' \<longleftrightarrow> res_prediction r = 1)
             \<and> (res_meaning r = ''legitimate'' \<longleftrightarrow> res_prediction r \<noteq> 1)))"
proof (intro conjI impI)
  assume "req = JsonRequest (Object None) \<or> req = FormRequest None
     \<or> ((req = JsonRequest (Object (Some (JString s))) \<or> req = FormRequest (Some s))
         \<and> py_strip s = [])"
  then have "request_url req = Inr []"
    by (auto simp: request_url_cases)
  then show "predict env a w req = ((ErrorJson ''no url provided'', 400), w)"
    by (simp add: predict_def)
next
  assume h: "(req = JsonRequest (Object (Some (JString s))) \<or> req = FormRequest (Some s))
       \<and> py_strip s \<noteq> []
       \<and> extract_features_for_model env w (Str (py_strip s)) META_PATH = (Inr X, w')
       \<and> model_predict (model a) X = Inr p
       \<and> (\<forall>pp. model_predict_proba (model a) = Some pp \<longrightarrow> (\<exists>ps. pp X = Inr ps))"
  then have u: "request_url req = Inr (py_strip s)" by (auto simp: request_url_cases)
  from h obtain proba where
    pr: "(case model_predict_proba (model a) of
            None \<Rightarrow> Inr None
          | Some pp \<Rightarrow> (case pp X of Inl e \<Rightarrow> Inl e | Inr ps \<Rightarrow> Inr (Some ps))) = Inr proba"
    by (cases "model_predict_proba (model a)") auto
  let ?r = "\<lparr> res_url = py_strip s, res_prediction = p,
              res_meaning = (if p = 1 then ''phishing'' else ''legitimate''),
              res_probabilities = proba \<rparr>"
  from h u pr have "fst (predict env a w req)
      = ((if is_json req then ResultJson ?r else ResultHtml ?r), 200)"
    by (simp add: predict_def Let_def)
  then show "\<exists>r. fst (predict env a w req)
                   = ((if is_json req then ResultJson r else ResultHtml r), 200)
             \<and> res_url r = py_strip s \<and> res_prediction r = p
             \<and> (res_meaning r = ''phishing'' \<longleftrightarrow> res_prediction r = 1)
             \<and> (res_meaning r = ''legitimate'' \<longleftrightarrow> res_prediction r \<noteq> 1)"
    by (intro exI [of _ ?r]) simp
qed

theorem predict_responses_witness:
  "predict env_default example_app (example_world example_meta) (FormRequest (Some ''  ''))
     = ((ErrorJson ''no url provided'', 400), example_world example_meta)
   \<and> predict env_default example_app (example_world example_meta) (JsonRequest (Object None))
     = ((ErrorJson ''no url provided'', 400), example_world example_meta)
   \<and> fst (predict env_default example_app (example_world example_meta)
             (JsonRequest (Object (Some (JString '' a.b '')))))
     = (ResultJson \<lparr> res_url = ''a.b'', res_prediction = 1, res_meaning = ''phishing'',
                     res_probabilities = None \<rparr>, 200)"
proof -
  note t1 = predict_responses [of "FormRequest (Some ''  '')" "''  ''" env_default example_app
      "example_world example_meta"]
  note t2 = predict_responses [of "JsonRequest (Object None)" "[]" env_default example_app
      "example_world example_meta"]
  note t3 = predict_responses [of "JsonRequest (Object (Some (JString '' a.b '')))" "'' a.b ''"
      env_default example_app "example_world example_meta"
      "[(''nb_dots'', Some (PyInt 1)), (''domain_age'', Some (PyFloat 120)),
        (''page_rank'', Some (PyFloat 0))]"
      "(example_world example_meta)\<lparr> opened := [META_PATH] \<rparr>" 1]
  from t1 have a: "predict env_default example_app (example_world example_meta)
      (FormRequest (Some ''  '')) = ((ErrorJson ''no url provided'', 400), example_world example_meta)"
    by (simp add: strip_blank)
  from t2 have b: "predict env_default example_app (example_world example_meta)
      (JsonRequest (Object None)) = ((ErrorJson ''no url provided'', 400), example_world example_meta)"
    by simp
  from t3 obtain r where r: "fst (predict env_default example_app (example_world example_meta)
             (JsonRequest (Object (Some (JString '' a.b ''))))) = (ResultJson r, 200)"
      "res_url r = ''a.b''" "res_prediction r = 1" "res_meaning r = ''phishing''"
    by (auto simp: strip_blank example_extract example_predict_label is_json_def)
  have "res_probabilities r = None"
    using r(1) by (auto simp: predict_def request_url_cases strip_blank example_extract
        example_predict_label is_json_def)
  with r have "r = \<lparr> res_url = ''a.b'', res_prediction = 1, res_meaning = ''phishing'',
                     res_probabilities = None \<rparr>"
    by (cases r) simp
  with a b r(1) show ?thesis by simp
qed

theorem predict_responses_counterexample:
  "fst (predict env_default (example_app\<lparr> model := three_class_classifier \<rparr>)
          (example_world example_meta) (JsonRequest (Object (Some (JString ''a.b'')))))
     = (ResultJson \<lparr> res_url = ''a.b'', res_prediction = 2, res_meaning = ''legitimate'',
                     res_probabilities = None \<rparr>, 200)
   \<and> fst (predict env_default example_app (example_world example_meta) (JsonRequest NonObject))
     = (ExceptionJson AttributeError, 500)
   \<and> fst (predict env_default example_app (example_world example_meta)
            (JsonRequest (Object (Some JOther))))
     = (ExceptionJson AttributeError, 500)"
proof -
  have u: "request_url (JsonRequest (Object (Some (JString ''a.b'')))) = Inr ''a.b''"
    by (simp add: request_url_def py_strip_def isspace_char_def)
  have "fst (predict env_default (example_app\<lparr> model := three_class_classifier \<rparr>)
          (example_world example_meta) (JsonRequest (Object (Some (JString ''a.b'')))))
     = (ResultJson \<lparr> res_url = ''a.b'', res_prediction = 2, res_meaning = ''legitimate'',
                     res_probabilities = None \<rparr>, 200)"
    by (simp add: predict_def u example_extract three_class_classifier_def is_json_def)
  moreover
  have "fst (predict env_default example_app (example_world example_meta) (JsonRequest NonObject))
     = (ExceptionJson AttributeError, 500)"
    by (simp add: predict_def request_url_def)
  moreover
  have "fst (predict env_default example_app (example_world example_meta)
            (JsonRequest (Object (Some JOther))))
     = (ExceptionJson AttributeError, 500)"
    by (simp add: predict_def request_url_def)
  ultimately show ?thesis by blast
qed

text \<open>
  C5 (as amended). The start of the process opens the metadata file once and keeps the
  document in globals that the prediction path never reads. Every request with a non-empty
  \<open>url\<close> opens the metadata file again, through \<open>extract_features_for_model\<close>, and the
  response is a function of the content of that file at the time of the request (and of the
  request and the classifier): two worlds with the same metadata file give the same
  response, whatever was loaded at the start. The claim as stated, that the file is not
  read again and that its state at request time does not matter, fails on a file whose
  feature list has changed since the start.
\<close>

theorem metadata_read_on_every_request:
  "(fst (startup wi) = Inr ai \<longrightarrow> opened (snd (startup wi)) = opened wi @ [MODEL_PATH, META_PATH])
   \<and> predict env (a\<lparr> meta := m, MODEL_FEATURES := fs \<rparr>) w req = predict env a w req
   \<and> (request_url req = Inr u \<and> u \<noteq> [] \<longrightarrow>
        opened (snd (predict env a w req)) = opened w @ [META_PATH])
   \<and> (meta_files w META_PATH = meta_files wo META_PATH \<longrightarrow>
        fst (predict env a w req) = fst (predict env a wo req))"
proof (intro conjI impI)
  assume "fst (startup wi) = Inr ai"
  then show "opened (snd (startup wi)) = opened wi @ [MODEL_PATH, META_PATH]"
    by (rule startup_opened)
next
  show "predict env (a\<lparr> meta := m, MODEL_FEATURES := fs \<rparr>) w req = predict env a w req"
    by (rule predict_ignores_loaded_meta)
next
  assume "request_url req = Inr u \<and> u \<noteq> []"
  then show "opened (snd (predict env a w req)) = opened w @ [META_PATH]"
    using predict_opened by blast
next
  assume "meta_files w META_PATH = meta_files wo META_PATH"
  then show "fst (predict env a w req) = fst (predict env a wo req)"
    by (rule predict_depends_on_file)
qed

theorem metadata_read_on_every_request_witness:
  "fst (startup (example_world example_meta)) = Inr example_app
   \<and> opened (snd (startup (example_world example_meta))) = [MODEL_PATH, META_PATH]
   \<and> request_url (JsonRequest (Object (Some (JString ''a.b'')))) = Inr ''a.b''
   \<and> opened (snd (predict env_default example_app (snd (startup (example_world example_meta)))
                    (JsonRequest (Object (Some (JString ''a.b''))))))
       = [MODEL_PATH, META_PATH, META_PATH]
   \<and> fst (predict env_default example_app (snd (startup (example_world example_meta)))
             (JsonRequest (Object (Some (JString ''a.b'')))))
       = fst (predict env_default example_app (example_world example_meta)
                (JsonRequest (Object (Some (JString ''a.b'')))))"
proof -
  let ?w = "example_world example_meta"
  let ?req = "JsonRequest (Object (Some (JString ''a.b'')))"
  have s: "fst (startup ?w) = Inr example_app"
    by (simp add: startup_def example_world_def example_meta_def example_app_def Let_def)
  have u: "request_url ?req = Inr ''a.b''"
    by (simp add: request_url_def py_strip_def isspace_char_def)
  have o0: "opened ?w = []" by (simp add: example_world_def)
  have f: "meta_files (snd (startup ?w)) META_PATH = meta_files ?w META_PATH"
    by (simp add: startup_def example_world_def example_meta_def Let_def)
  note t = metadata_read_on_every_request [where wi = ?w and ai = example_app
      and env = env_default and a = example_app and w = "snd (startup ?w)" and req = ?req
      and u = "''a.b''" and wo = ?w]
  from t s o0 have o1: "opened (snd (startup ?w)) = [MODEL_PATH, META_PATH]" by simp
  from t u o1 have o2: "opened (snd (predict env_default example_app (snd (startup ?w)) ?req))
       = [MODEL_PATH, META_PATH, META_PATH]" by simp
  from t f have "fst (predict env_default example_app (snd (startup ?w)) ?req)
       = fst (predict env_default example_app ?w ?req)" by blast
  with s u o1 o2 show ?thesis by blast
qed

theorem metadata_read_once_counterexample:
  "fst (startup (example_world example_meta)) = Inr example_app
   \<and> fst (predict env_default example_app (example_world example_meta)
            (JsonRequest (Object (Some (JString ''a.b'')))))
       = (ResultJson \<lparr> res_url = ''a.b'', res_prediction = 1, res_meaning = ''phishing'',
                       res_probabilities = None \<rparr>, 200)
   \<and> fst (predict env_default example_app (example_world other_meta)
            (JsonRequest (Object (Some (JString ''a.b'')))))
       = (ResultJson \<lparr> res_url = ''a.b'', res_prediction = 0, res_meaning = ''legitimate'',
                       res_probabilities = None \<rparr>, 200)
   \<and> opened (snd (predict env_default example_app (snd (startup (example_world example_meta)))
                    (JsonRequest (Object (Some (JString ''a.b''))))))
       = [MODEL_PATH, META_PATH, META_PATH]"
proof -
  let ?w = "example_world example_meta"
  let ?req = "JsonRequest (Object (Some (JString ''a.b'')))"
  have s: "fst (startup ?w) = Inr example_app"
    by (simp add: startup_def example_world_def example_meta_def example_app_def Let_def)
  have u: "request_url ?req = Inr ''a.b''"
    by (simp add: request_url_def py_strip_def isspace_char_def)
  have p1: "fst (predict env_default example_app ?w ?req)
       = (ResultJson \<lparr> res_url = ''a.b'', res_prediction = 1, res_meaning = ''phishing'',
                       res_probabilities = None \<rparr>, 200)"
    by (simp add: predict_def u example_extract example_predict_label is_json_def)
  have p2: "fst (predict env_default example_app (example_world other_meta) ?req)
       = (ResultJson \<lparr> res_url = ''a.b'', res_prediction = 0, res_meaning = ''legitimate'',
                       res_probabilities = None \<rparr>, 200)"
    by (simp add: predict_def u other_extract example_predict_label is_json_def)
  have o1: "opened (snd (startup ?w)) = [MODEL_PATH, META_PATH]"
    using startup_opened [OF s] by (simp add: example_world_def)
  have o2: "opened (snd (predict env_default example_app (snd (startup ?w)) ?req))
       = [MODEL_PATH, META_PATH, META_PATH]"
    using predict_opened [OF u, of env_default example_app "snd (startup ?w)"] o1 by simp
  from s p1 p2 o2 show ?thesis by blast
qed

end
